theory Spec2Isabelle
  imports Main "HOL-Library.Sublist"
begin

section \<open>Python strings and the regular expressions of generate.py\<close>

text \<open>
  A Python \<open>str\<close> is modelled as a \<^typ>\<open>string\<close>, one \<^typ>\<open>char\<close> per code point
  (code points below 256, which covers everything the script itself writes).
  \<open>sublist q s\<close> of the library (\<open>\<exists>ps ss. s = ps @ q @ ss\<close>) says that the text
  \<open>s\<close> contains \<open>q\<close>.

  The script uses four regular expressions. They are built from literal characters,
  greedy stars over a one-character class (\<open>.*\<close> and \<open>[^ ]*\<close>) and capturing groups
  that are not nested, so a pattern is a list of atoms of these four kinds.
\<close>

datatype cset = Dot | NotChar char

fun in_cset :: "cset \<Rightarrow> char \<Rightarrow> bool" where
  "in_cset Dot c = (c \<noteq> CHR 0x0A)"
| "in_cset (NotChar x) c = (c \<noteq> x)"

datatype atom = Lit char | Star cset | GrpL | GrpR

text \<open>
  \<open>re_match ps s\<close> is Python's backtracking matcher anchored at the start of \<open>s\<close>: a
  greedy star first tries to take one more character and falls back to the rest of
  the pattern only when that fails. The result is the text left after the match and,
  for every group delimiter in pattern order, the text that was left when the
  matcher passed it.
\<close>

fun re_match :: "atom list \<Rightarrow> string \<Rightarrow> (string list \<times> string) option" where
  "re_match [] s = Some ([], s)"
| "re_match (Lit c # ps) [] = None"
| "re_match (Lit c # ps) (x # xs) = (if x = c then re_match ps xs else None)"
| "re_match (Star k # ps) [] = re_match ps []"
| "re_match (Star k # ps) (x # xs) =
     (if in_cset k x
      then (case re_match (Star k # ps) xs of
              Some m \<Rightarrow> Some m
            | None \<Rightarrow> re_match ps (x # xs))
      else re_match ps (x # xs))"
| "re_match (GrpL # ps) s = map_option (\<lambda>(ms, r). (s # ms, r)) (re_match ps s)"
| "re_match (GrpR # ps) s = map_option (\<lambda>(ms, r). (s # ms, r)) (re_match ps s)"

text \<open>\<open>re.search\<close>: the match at the leftmost position that has one.\<close>

fun re_search :: "atom list \<Rightarrow> string \<Rightarrow> (string list \<times> string) option" where
  "re_search ps [] = re_match ps []"
| "re_search ps (c # cs) =
     (case re_match ps (c # cs) of
        Some m \<Rightarrow> Some m
      | None \<Rightarrow> re_search ps cs)"

text \<open>
  \<open>m[k]\<close> for the \<open>k\<close>-th group (counted from 1) of a match: the text between the
  group's two delimiters. Python raises IndexError for a group the pattern does not
  have; that is \<open>None\<close> here.
\<close>

definition group :: "nat \<Rightarrow> string list \<times> string \<Rightarrow> string option" where
  "group k m =
     (if 1 \<le> k \<and> 2 * k \<le> length (fst m)
      then let a = fst m ! (2 * k - 2); b = fst m ! (2 * k - 1)
           in Some (take (length a - length b) a)
      else None)"

text \<open>
  \<open>re.sub\<close> with a replacement text that has no backslash (all three of the script's
  replacements): scanning from the left, every match is replaced and the scan goes on
  after it; a character where no match starts is copied. An empty match is replaced
  too and the scan moves on by one character.
\<close>

fun re_sub :: "atom list \<Rightarrow> string \<Rightarrow> string \<Rightarrow> string" where
  "re_sub ps repl [] = (case re_match ps [] of Some m \<Rightarrow> repl | None \<Rightarrow> [])"
| "re_sub ps repl (c # cs) =
     (case re_match ps (c # cs) of
        None \<Rightarrow> c # re_sub ps repl cs
      | Some m \<Rightarrow>
          if length (snd m) < length (c # cs)
          then repl @ re_sub ps repl (snd m)
          else repl @ c # re_sub ps repl cs)"

section \<open>The sanitizer \<open>process_source\<close>\<close>

text \<open>The pattern \<^verbatim>\<open>__asm__ .*\(.*\);\<close> and its replacement.\<close>

definition asm_pattern :: "atom list" where
  "asm_pattern =
     map Lit ''__asm__ '' @ [Star Dot, Lit CHR ''('', Star Dot, Lit CHR '')'', Lit CHR '';'']"

definition asm_repl :: string where
  "asm_repl = ''(void)123; /* GHIDRA: Removed __asm__ statement */''"

text \<open>The pattern \<^verbatim>\<open>(__int128)\<close> and its replacement.\<close>

definition int128_pattern :: "atom list" where
  "int128_pattern = [GrpL] @ map Lit ''__int128'' @ [GrpR]"

definition int128_repl :: string where
  "int128_repl = ''long /* GHIDRA: Removed __int128 */''"

text \<open>The pattern \<^verbatim>\<open>(\.0f16)\<close> and its replacement.\<close>

definition f16_pattern :: "atom list" where
  "f16_pattern = [GrpL] @ map Lit ''.0f16'' @ [GrpR]"

definition f16_repl :: string where
  "f16_repl = ''.0f /* GHIDRA: Removed f16 */''"

definition process_source :: "string \<Rightarrow> string" where
  "process_source source =
     (let source = re_sub asm_pattern asm_repl source;
          source = re_sub int128_pattern int128_repl source;
          source = re_sub f16_pattern f16_repl source
      in source)"

section \<open>The module-level tables\<close>

text \<open>
  The four flag tables are Python lists bound to module-level names. A list is an
  object that several names may refer to, so the lists live in a store indexed by a
  reference, and a name holds a reference.
\<close>

datatype ref = MINGW_OPTIONS | DEFAULT_OPTIONS_32 | DEFAULT_OPTIONS_64 | GCC_FLAGS

fun initial_tables :: "ref \<Rightarrow> string list" where
  \<open>initial_tables MINGW_OPTIONS =
     [''-DCONST="const"'',
      ''-D__restrict__=""'',
      ''-D__always_inline__="inline"'',
      ''-D__gnu_inline__="inline"'',
      ''-D__builtin_va_list="void *"'']\<close>
| \<open>initial_tables DEFAULT_OPTIONS_32 =
     [''-D_X86_'',
      ''-D__STDC__'',
      ''-D_GNU_SOURCE'',
      ''-D__WORDSIZE=32'',
      ''-D__builtin_va_list=void *'',
      ''-D__DO_NOT_DEFINE_COMPILE'',
      ''-D_Complex'',
      ''-D__NO_STRING_INLINES'',
      ''-D__NO_LONG_DOUBLE_MATH'',
      ''-D__signed__'',
      ''-D__extension__=""'',
      ''-D__GLIBC_HAVE_LONG_LONG=1'',
      ''-Daligned_u64=uint64_t'']\<close>
| \<open>initial_tables DEFAULT_OPTIONS_64 =
     [''-D_X86_'',
      ''-D__STDC__'',
      ''-D_GNU_SOURCE'',
      ''-D__WORDSIZE=64'',
      ''-D__builtin_va_list=void *'',
      ''-D__DO_NOT_DEFINE_COMPILE'',
      ''-D_Complex'',
      ''-D__NO_STRING_INLINES'',
      ''-D__signed__'',
      ''-D__extension__=""'',
      ''-D__GLIBC_HAVE_LONG_LONG=1'',
      ''-D__need_sigset_t'',
      ''-Daligned_u64=uint64_t'']\<close>
| \<open>initial_tables GCC_FLAGS =
     [''-std=c99'',
      ''-I.'']\<close>

definition DEFAULT_SOURCE :: string where
  "DEFAULT_SOURCE =
     ''\<newline>'' @
     ''// This file was generated by https://github.com/hkva/ghidra-directx-data\<newline>'' @
     ''\<newline>'' @
     ''// BEGIN MANUAL DEFINITIONS\<newline>'' @
     ''\<newline>'' @
     ''typedef struct _Float16 {\<newline>'' @
     ''    float m[16];\<newline>'' @
     ''} _Float16;\<newline>'' @
     ''\<newline>'' @
     ''typedef unsigned short __bf16;\<newline>'' @
     ''\<newline>'' @
     ''// END MANUAL DEFINITIONS\<newline>'' @
     ''\<newline>''"

section \<open>The state of a run and its outcome\<close>

text \<open>
  What a run can change: the four lists, the files on disk and the lines printed.
  A file opened for writing is created empty (or truncated) at once; the \<open>with\<close>
  block closes it however the block is left, also by \<open>exit\<close> or an exception, so
  the text written so far is the file's content at the end of the run.
\<close>

record state =
  tables :: "ref \<Rightarrow> string list"
  files :: "string \<rightharpoonup> string"
  printed :: "string list"

definition initial_state :: state where
  "initial_state = \<lparr>tables = initial_tables, files = Map.empty, printed = []\<rparr>"

datatype exn = IndexError | ValueError | TypeError | OSError

text \<open>How a run ends: \<open>exit(n)\<close> (falling off the end is status 0) or an exception nobody catches.\<close>

datatype stop = Exit int | Uncaught exn

definition py_print :: "string \<Rightarrow> state \<Rightarrow> state" where
  "py_print line s = s\<lparr>printed := printed s @ [line]\<rparr>"

definition open_w :: "string \<Rightarrow> state \<Rightarrow> state" where
  "open_w path s = s\<lparr>files := (files s)(path \<mapsto> [])\<rparr>"

definition f_write :: "string \<Rightarrow> string \<Rightarrow> state \<Rightarrow> state" where
  "f_write path txt s =
     s\<lparr>files := (files s)(path \<mapsto> (case files s path of None \<Rightarrow> [] | Some old \<Rightarrow> old) @ txt)\<rparr>"

text \<open>\<open>xs += ys\<close> and \<open>xs.append(y)\<close> on a list change the object \<open>xs\<close> refers to.\<close>

definition py_extend :: "ref \<Rightarrow> string list \<Rightarrow> state \<Rightarrow> state" where
  "py_extend r ys s = s\<lparr>tables := (tables s)(r := tables s r @ ys)\<rparr>"

section \<open>Running the compiler\<close>

text \<open>
  The compiler is outside the program: a \<open>process\<close> maps the argument vector and the
  text on standard input to \<open>None\<close> when the command cannot be started (\<open>Popen\<close>
  raises OSError) and otherwise to the return code, standard output and standard
  error. Encoding and decoding are the identity of the model.
\<close>

type_synonym process = "string list \<Rightarrow> string \<Rightarrow> (int \<times> string \<times> string) option"

definition run_gcc ::
  "process \<Rightarrow> string \<Rightarrow> string list \<Rightarrow> string \<Rightarrow> bool \<Rightarrow> state \<Rightarrow> (stop + string) \<times> state" where
  "run_gcc os gcc flags input capture_stderr s =
     (case os ([gcc] @ tables s GCC_FLAGS @ flags @ [''-'']) input of
        None \<Rightarrow> (Inl (Uncaught OSError), s)
      | Some (returncode, s_out, s_err) \<Rightarrow>
          if returncode \<noteq> 0
          then (Inl (Exit 1), py_print (''GCC command failed: '' @ s_err) s)
          else (Inr (if capture_stderr then s_err else s_out), s))"

section \<open>\<open>str.splitlines\<close>, \<open>str.strip\<close>, \<open>list.index\<close> and slices\<close>

definition is_linebreak :: "char \<Rightarrow> bool" where
  "is_linebreak c = (c \<in> set (map char_of [10, 11, 12, 13, 28, 29, 30, 133 :: nat]))"

definition isspace :: "char \<Rightarrow> bool" where
  "isspace c = (c \<in> set (map char_of [9, 10, 11, 12, 13, 28, 29, 30, 31, 32, 133, 160 :: nat]))"

text \<open>
  \<open>splitlines_from cur s\<close>: the lines of \<open>s\<close> when \<open>cur\<close> is the part of the current
  line read so far. A carriage return followed by a line feed is one line break, and
  a text that ends with a line break has no empty last line.
\<close>

fun splitlines_from :: "string \<Rightarrow> string \<Rightarrow> string list" where
  "splitlines_from cur [] = (if cur = [] then [] else [cur])"
| "splitlines_from cur [c] =
     (if is_linebreak c then [cur] else [cur @ [c]])"
| "splitlines_from cur (c # d # cs) =
     (if c = CHR 0x0D \<and> d = CHR 0x0A then cur # splitlines_from [] cs
      else if is_linebreak c then cur # splitlines_from [] (d # cs)
      else splitlines_from (cur @ [c]) (d # cs))"

definition splitlines :: "string \<Rightarrow> string list" where
  "splitlines s = splitlines_from [] s"

definition strip :: "string \<Rightarrow> string" where
  "strip s = rev (dropWhile isspace (rev (dropWhile isspace s)))"

text \<open>\<open>xs.index(x)\<close>: the first position of \<open>x\<close>, ValueError when there is none.\<close>

fun index :: "'a list \<Rightarrow> 'a \<Rightarrow> nat option" where
  "index [] x = None"
| "index (y # ys) x = (if y = x then Some 0 else map_option Suc (index ys x))"

text \<open>\<open>xs[i:j]\<close> for indices that are not negative.\<close>

definition slice :: "'a list \<Rightarrow> nat \<Rightarrow> nat \<Rightarrow> 'a list" where
  "slice xs i j = take (j - i) (drop i xs)"

section \<open>The program\<close>

text \<open>
  The first \<open>with\<close> block of \<open>__main__\<close>: the header file is opened and the prologue
  written before the compiler runs.
\<close>

definition flatten_header ::
  "process \<Rightarrow> string \<Rightarrow> string \<Rightarrow> string \<Rightarrow> state \<Rightarrow> (stop + unit) \<times> state" where
  "flatten_header os gcc_cmd a_name a_arch s0 =
     (let s1 = py_print ''Processing sources...'' s0;
          f = a_name @ ''_'' @ a_arch @ ''.h'';
          s2 = open_w f s1;
          s3 = f_write f DEFAULT_SOURCE s2
      in case run_gcc os gcc_cmd [''-P'', ''-E''] (''#include <'' @ a_name @ ''.h>'') False s3 of
           (Inl e, s4) \<Rightarrow> (Inl e, s4)
         | (Inr source, s4) \<Rightarrow> (Inr (), f_write f (process_source source) s4))"

text \<open>
  The include flags: \<^verbatim>\<open>[ f'-I{inc.strip()}' for inc in out[out.index(A)+1:out.index(B)] ]\<close>.
\<close>

definition search_starts :: string where
  "search_starts = ''#include <...> search starts here:''"

definition search_ends :: string where
  "search_ends = ''End of search list.''"

definition include_flags :: "string list \<Rightarrow> exn + string list" where
  "include_flags out =
     (case index out search_starts of
        None \<Rightarrow> Inl ValueError
      | Some i \<Rightarrow>
          (case index out search_ends of
             None \<Rightarrow> Inl ValueError
           | Some j \<Rightarrow> Inr (map (\<lambda>inc. ''-I'' @ strip inc) (slice out (i + 1) j))))"

text \<open>
  The define flags: the pattern \<^verbatim>\<open>#define ([^ ]*) (.*)\<close> is searched in a line, and
  the match is subscripted without a test. Subscripting \<open>None\<close> raises TypeError.
\<close>

definition define_pattern :: "atom list" where
  "define_pattern =
     map Lit ''#define '' @
     [GrpL, Star (NotChar CHR '' ''), GrpR, Lit CHR '' '', GrpL, Star Dot, GrpR]"

definition define_flag :: "string \<Rightarrow> exn + string" where
  \<open>define_flag i =
     (case re_search define_pattern i of
        None \<Rightarrow> Inl TypeError
      | Some m \<Rightarrow>
          (case (group 1 m, group 2 m) of
             (Some m1, Some m2) \<Rightarrow> Inr (''-D'' @ m1 @ ''="'' @ m2 @ ''"'')
           | _ \<Rightarrow> Inl IndexError))\<close>

fun define_loop :: "ref \<Rightarrow> string list \<Rightarrow> state \<Rightarrow> (stop + unit) \<times> state" where
  "define_loop opts [] s = (Inr (), s)"
| "define_loop opts (i # out) s =
     (case define_flag i of
        Inl x \<Rightarrow> (Inl (Uncaught x), s)
      | Inr flag \<Rightarrow> define_loop opts out (py_extend opts [flag] s))"

text \<open>
  The second \<open>with\<close> block. \<open>opts = MINGW_OPTIONS\<close> makes \<open>opts\<close> a second name of the
  list \<open>MINGW_OPTIONS\<close>: no copy is made.
\<close>

definition generate_options ::
  "process \<Rightarrow> string \<Rightarrow> string \<Rightarrow> string \<Rightarrow> state \<Rightarrow> (stop + unit) \<times> state" where
  "generate_options os gcc_cmd a_name a_arch s0 =
     (let s1 = py_print ''Generating parser options...'' s0;
          f = a_name @ ''_'' @ a_arch @ ''_parser_options.txt'';
          s2 = open_w f s1;
          opts = MINGW_OPTIONS;
          s3 = py_extend opts
                 (if a_arch = ''x64'' then tables s2 DEFAULT_OPTIONS_64
                  else tables s2 DEFAULT_OPTIONS_32) s2;
          empty_file = '' /* :) */ ''
      in case run_gcc os gcc_cmd [''-xc'', ''-E'', ''-v''] empty_file True s3 of
           (Inl e, s4) \<Rightarrow> (Inl e, s4)
         | (Inr err, s4) \<Rightarrow>
             (case include_flags (splitlines err) of
                Inl x \<Rightarrow> (Inl (Uncaught x), s4)
              | Inr incs \<Rightarrow>
                  (case run_gcc os gcc_cmd [''-dM'', ''-E''] empty_file False (py_extend opts incs s4) of
                     (Inl e, s6) \<Rightarrow> (Inl e, s6)
                   | (Inr out, s6) \<Rightarrow>
                       (case define_loop opts (splitlines out) s6 of
                          (Inl e, s7) \<Rightarrow> (Inl e, s7)
                        | (Inr u, s7) \<Rightarrow>
                            (Inr (),
                             fold (\<lambda>opt. f_write f (opt @ ''\<newline>'')) (tables s7 opts) s7)))))"

text \<open>\<open>__main__\<close>, from the argument vector \<open>sys.argv\<close> to the way the run ends.\<close>

definition main :: "process \<Rightarrow> string list \<Rightarrow> state \<Rightarrow> stop \<times> state" where
  "main os argv s0 =
     (if length argv \<noteq> 3
      then (case argv of
              [] \<Rightarrow> (Uncaught IndexError, s0)
            | prog # _ \<Rightarrow> (Exit 1, py_print (''Usage: '' @ prog @ '' <target> <32|64>'') s0))
      else
        let a_name = argv ! 1; a_arch = argv ! 2 in
        if a_arch \<noteq> ''32'' \<and> a_arch \<noteq> ''64''
        then (Exit 1, py_print ''Architecture must be either 32 or 64'' s0)
        else
          let s1 = py_print (''Generating profile '' @ a_name @ '' ('' @ a_arch @ ''-bit)'') s0;
              gcc_cmd = (if a_arch = ''64'' then ''x86_64-w64-mingw32-gcc''
                         else ''i686-w64-mingw32-gcc'')
          in case flatten_header os gcc_cmd a_name a_arch s1 of
               (Inl e, s2) \<Rightarrow> (e, s2)
             | (Inr u, s2) \<Rightarrow>
                 (case generate_options os gcc_cmd a_name a_arch s2 of
                    (Inl e, s3) \<Rightarrow> (e, s3)
                  | (Inr v, s3) \<Rightarrow> (Exit 0, s3)))"

text \<open>
  Two compilers to run the program against where a concrete one is needed: one that
  answers every call, and one that fails every call.
\<close>

definition gcc_ok :: process where
  "gcc_ok argv input =
     (if ''-v'' \<in> set argv
      then Some (0, [],
             ''ignoring nonexistent directory\<newline>'' @
             ''#include <...> search starts here:\<newline>'' @
             '' /usr/include\<newline>'' @
             ''End of search list.\<newline>'')
      else if ''-dM'' \<in> set argv
      then Some (0, ''#define __GNUC__ 10\<newline>'', [])
      else Some (0, ''typedef __int128 t;\<newline>'', []))"

definition gcc_fails :: process where
  "gcc_fails argv input = Some (1, [], ''fatal error: d3d11.h: No such file or directory'')"

section \<open>How the operations change the state\<close>

lemma files_py_print [simp]: "files (py_print l s) = files s"
  and tables_py_print [simp]: "tables (py_print l s) = tables s"
  and printed_py_print [simp]: "printed (py_print l s) = printed s @ [l]"
  by (simp_all add: py_print_def)

lemma files_py_extend [simp]: "files (py_extend r ys s) = files s"
  and printed_py_extend [simp]: "printed (py_extend r ys s) = printed s"
  and tables_py_extend: "tables (py_extend r ys s) = (tables s)(r := tables s r @ ys)"
  by (simp_all add: py_extend_def)

lemma tables_open_w [simp]: "tables (open_w f s) = tables s"
  and printed_open_w [simp]: "printed (open_w f s) = printed s"
  and files_open_w: "files (open_w f s) = (files s)(f \<mapsto> [])"
  by (simp_all add: open_w_def)

lemma tables_f_write [simp]: "tables (f_write f t s) = tables s"
  and printed_f_write [simp]: "printed (f_write f t s) = printed s"
  and files_f_write: "files (f_write f t s) = (files s)(f \<mapsto> (case files s f of None \<Rightarrow> [] | Some old \<Rightarrow> old) @ t)"
  by (simp_all add: f_write_def)

lemma py_extend_py_extend: "py_extend r b (py_extend r a s) = py_extend r (a @ b) s"
  by (simp add: py_extend_def)

lemma py_extend_Nil: "py_extend r [] s = s"
  by (simp add: py_extend_def)

lemma run_gcc_state:
  "run_gcc os gcc flags input c s = (res, s') \<Longrightarrow> tables s' = tables s \<and> files s' = files s"
  by (auto simp: run_gcc_def split: option.splits prod.splits if_splits)

lemma run_gcc_ok_state:
  "run_gcc os gcc flags input c s = (Inr t, s') \<Longrightarrow> s' = s"
  by (auto simp: run_gcc_def split: option.splits prod.splits if_splits)

lemma define_loop_state:
  "define_loop r out s = (res, s') \<Longrightarrow> \<exists>fl. s' = py_extend r fl s"
proof (induction out arbitrary: s)
  case Nil
  then show ?case by (auto simp: py_extend_Nil intro: exI [of _ "[]"])
next
  case (Cons i out)
  show ?case
  proof (cases "define_flag i")
    case (Inl x)
    with Cons.prems show ?thesis by (auto simp: py_extend_Nil intro: exI [of _ "[]"])
  next
    case (Inr flag)
    with Cons.prems have "define_loop r out (py_extend r [flag] s) = (res, s')" by simp
    from Cons.IH [OF this] obtain fl where "s' = py_extend r fl (py_extend r [flag] s)" by blast
    then show ?thesis by (auto simp: py_extend_py_extend)
  qed
qed

lemma fold_f_write_tables [simp]: "tables (fold (\<lambda>opt. f_write f (g opt)) xs s) = tables s"
  by (induction xs arbitrary: s) simp_all

lemma fold_f_write_files:
  "files s f = Some old \<Longrightarrow>
   files (fold (\<lambda>opt. f_write f (g opt)) xs s) = (files s)(f \<mapsto> old @ concat (map g xs))"
proof (induction xs arbitrary: s old)
  case Nil
  then show ?case by (simp add: fun_eq_iff)
next
  case (Cons x xs)
  have "files (f_write f (g x) s) f = Some (old @ g x)" using Cons.prems by (simp add: files_f_write)
  from Cons.IH [OF this] show ?case by (simp add: files_f_write Cons.prems fun_eq_iff)
qed

section \<open>Argument validation\<close>

text \<open>
  Claim C9. Invoked with a number of positional arguments other than 2, the program
  prints the usage message and exits with status 1; with an architecture argument
  other than \<open>32\<close> and \<open>64\<close> it prints the architecture error and exits with status 1.
  In both cases no file is written: the files are those of the start.
\<close>

theorem main_rejects_bad_arguments:
  "(length args \<noteq> 2 \<longrightarrow>
      fst (main os (prog # args) s) = Exit 1 \<and>
      printed (snd (main os (prog # args) s)) = printed s @ [''Usage: '' @ prog @ '' <target> <32|64>''] \<and>
      files (snd (main os (prog # args) s)) = files s) \<and>
   (a_arch \<noteq> ''32'' \<and> a_arch \<noteq> ''64'' \<longrightarrow>
      fst (main os [prog, a_name, a_arch] s) = Exit 1 \<and>
      printed (snd (main os [prog, a_name, a_arch] s)) = printed s @ [''Architecture must be either 32 or 64''] \<and>
      files (snd (main os [prog, a_name, a_arch] s)) = files s)"
  by (simp add: main_def)

theorem main_rejects_bad_arguments_witness:
  "length ([] :: string list) \<noteq> 2 \<and>
   fst (main gcc_ok [''generate.py''] initial_state) = Exit 1 \<and>
   printed (snd (main gcc_ok [''generate.py''] initial_state)) = [''Usage: generate.py <target> <32|64>''] \<and>
   files (snd (main gcc_ok [''generate.py''] initial_state)) = Map.empty \<and>
   ''99'' \<noteq> ''32'' \<and> ''99'' \<noteq> ''64'' \<and>
   fst (main gcc_ok [''generate.py'', ''d3d11'', ''99''] initial_state) = Exit 1 \<and>
   printed (snd (main gcc_ok [''generate.py'', ''d3d11'', ''99''] initial_state)) = [''Architecture must be either 32 or 64''] \<and>
   files (snd (main gcc_ok [''generate.py'', ''d3d11'', ''99''] initial_state)) = Map.empty"
  using main_rejects_bad_arguments [of "[]" gcc_ok "''generate.py''" initial_state "''99''" "''d3d11''"]
  by (simp add: initial_state_def)

section \<open>A failing compiler in the header step\<close>

lemma flatten_header_failure:
  assumes "os ([gcc] @ tables s GCC_FLAGS @ [''-P'', ''-E'', ''-'']) (''#include <'' @ a_name @ ''.h>'') = Some (rc, out, err)"
    and "rc \<noteq> 0"
  shows "flatten_header os gcc a_name a_arch s =
     (Inl (Exit 1),
      py_print (''GCC command failed: '' @ err)
        (f_write (a_name @ ''_'' @ a_arch @ ''.h'') DEFAULT_SOURCE
          (open_w (a_name @ ''_'' @ a_arch @ ''.h'') (py_print ''Processing sources...'' s))))"
  using assms by (simp add: flatten_header_def run_gcc_def Let_def)

text \<open>
  Claim C3, as the code has it. When the preprocessor call of the header step returns
  a non-zero code, the error stream is printed after \<open>GCC command failed: \<close>, the run
  exits with status 1, and the header file has been created by then: it holds exactly
  the prologue \<open>DEFAULT_SOURCE\<close>. No other file is touched.
\<close>

theorem header_file_holds_prologue_on_failure:
  assumes "a_arch = ''32'' \<or> a_arch = ''64''"
    and "os ([if a_arch = ''64'' then ''x86_64-w64-mingw32-gcc'' else ''i686-w64-mingw32-gcc'']
             @ tables s GCC_FLAGS @ [''-P'', ''-E'', ''-''])
            (''#include <'' @ a_name @ ''.h>'') = Some (rc, out, err)"
    and "rc \<noteq> 0"
  shows "fst (main os [prog, a_name, a_arch] s) = Exit 1 \<and>
         printed (snd (main os [prog, a_name, a_arch] s)) =
           printed s @ [''Generating profile '' @ a_name @ '' ('' @ a_arch @ ''-bit)'',
                        ''Processing sources...'',
                        ''GCC command failed: '' @ err] \<and>
         files (snd (main os [prog, a_name, a_arch] s)) =
           (files s)(a_name @ ''_'' @ a_arch @ ''.h'' \<mapsto> DEFAULT_SOURCE)"
proof -
  let ?gcc = "if a_arch = ''64'' then ''x86_64-w64-mingw32-gcc'' else ''i686-w64-mingw32-gcc''"
  let ?s1 = "py_print (''Generating profile '' @ a_name @ '' ('' @ a_arch @ ''-bit)'') s"
  have fh: "flatten_header os ?gcc a_name a_arch ?s1 =
     (Inl (Exit 1),
      py_print (''GCC command failed: '' @ err)
        (f_write (a_name @ ''_'' @ a_arch @ ''.h'') DEFAULT_SOURCE
          (open_w (a_name @ ''_'' @ a_arch @ ''.h'') (py_print ''Processing sources...'' ?s1))))"
    by (rule flatten_header_failure [where rc = rc and out = out]) (use assms in simp_all)
  have m: "main os [prog, a_name, a_arch] s =
     (Exit 1,
      py_print (''GCC command failed: '' @ err)
        (f_write (a_name @ ''_'' @ a_arch @ ''.h'') DEFAULT_SOURCE
          (open_w (a_name @ ''_'' @ a_arch @ ''.h'') (py_print ''Processing sources...'' ?s1))))"
    using assms(1) fh by (auto simp: main_def Let_def)
  show ?thesis
    unfolding m by (simp add: files_f_write files_open_w)
qed

theorem header_file_holds_prologue_on_failure_witness:
  "fst (main gcc_fails [''generate.py'', ''d3d11'', ''32''] initial_state) = Exit 1 \<and>
   printed (snd (main gcc_fails [''generate.py'', ''d3d11'', ''32''] initial_state)) =
     [''Generating profile d3d11 (32-bit)'', ''Processing sources...'',
      ''GCC command failed: fatal error: d3d11.h: No such file or directory''] \<and>
   files (snd (main gcc_fails [''generate.py'', ''d3d11'', ''32''] initial_state)) =
     [''d3d11_32.h'' \<mapsto> DEFAULT_SOURCE]"
  using header_file_holds_prologue_on_failure
    [of "''32''" gcc_fails initial_state "''d3d11''" 1 "[]"
        "''fatal error: d3d11.h: No such file or directory''" "''generate.py''"]
  by (simp add: gcc_fails_def initial_state_def)

text \<open>
  The claim as stated says that the header file holds nothing in that branch, not even
  the prologue. With a compiler that fails, the file holds the prologue.
\<close>

theorem header_file_not_empty_on_failure:
  "fst (main gcc_fails [''generate.py'', ''d3d11'', ''32''] initial_state) = Exit 1 \<and>
   files (snd (main gcc_fails [''generate.py'', ''d3d11'', ''32''] initial_state)) ''d3d11_32.h''
     = Some DEFAULT_SOURCE \<and>
   DEFAULT_SOURCE \<noteq> []"
  by (simp add: main_def flatten_header_def run_gcc_def gcc_fails_def initial_state_def Let_def
      files_f_write files_open_w DEFAULT_SOURCE_def)

end
